theory Spec2Isabelle
  imports Main
begin

section \<open>Python strings\<close>

text \<open>
  A Python \<open>str\<close> is modelled as an Isabelle \<open>string\<close>. Every pattern, marker and
  literal of \<open>main.py\<close> is ASCII; characters outside ASCII are carried along
  unchanged and count neither as whitespace nor as cased letters.
\<close>

definition ascii_uppercase :: string where
  "ascii_uppercase = ''ABCDEFGHIJKLMNOPQRSTUVWXYZ''"

definition ascii_lowercase :: string where
  "ascii_lowercase = ''abcdefghijklmnopqrstuvwxyz''"

definition lower_char :: "char \<Rightarrow> char" where
  "lower_char c =
     (case map_of (zip ascii_uppercase ascii_lowercase) c of
        Some l \<Rightarrow> l
      | None \<Rightarrow> c)"

text \<open>\<open>s.lower()\<close>\<close>

definition lower :: "string \<Rightarrow> string" where
  "lower s = map lower_char s"

text \<open>
  The characters \<open>str.isspace\<close> accepts in the ASCII range: tab, line feed, vertical
  tab, form feed, carriage return, the four separators 0x1C..0x1F and the space.
\<close>

definition whitespace :: string where
  "whitespace = [CHR 0x09, CHR 0x0A, CHR 0x0B, CHR 0x0C, CHR 0x0D,
                 CHR 0x1C, CHR 0x1D, CHR 0x1E, CHR 0x1F, CHR 0x20]"

definition isspace :: "char \<Rightarrow> bool" where
  "isspace c = (c \<in> set whitespace)"

text \<open>\<open>s.lstrip(chars)\<close>, \<open>s.strip()\<close>\<close>

definition lstrip :: "string \<Rightarrow> string \<Rightarrow> string" where
  "lstrip chars s = dropWhile (\<lambda>c. c \<in> set chars) s"

definition strip :: "string \<Rightarrow> string" where
  "strip s = rev (dropWhile isspace (rev (dropWhile isspace s)))"

text \<open>\<open>s.startswith(p)\<close>, \<open>s.endswith(p)\<close>\<close>

fun startswith :: "string \<Rightarrow> string \<Rightarrow> bool" where
  "startswith s [] = True"
| "startswith [] (p # ps) = False"
| "startswith (c # cs) (p # ps) = (c = p \<and> startswith cs ps)"

definition endswith :: "string \<Rightarrow> string \<Rightarrow> bool" where
  "endswith s p = startswith (rev s) (rev p)"

text \<open>\<open>s.find(p)\<close>: the index of the leftmost occurrence of \<open>p\<close> in \<open>s\<close>, if any.\<close>

fun find_sub :: "string \<Rightarrow> string \<Rightarrow> nat option" where
  "find_sub p [] = (if p = [] then Some 0 else None)"
| "find_sub p (c # cs) =
     (if startswith (c # cs) p then Some 0 else map_option Suc (find_sub p cs))"

text \<open>\<open>s.split(sep)[0]\<close>: the text before the leftmost \<open>sep\<close>, all of \<open>s\<close> without one.\<close>

definition split_first :: "string \<Rightarrow> string \<Rightarrow> string" where
  "split_first sep s = (case find_sub sep s of None \<Rightarrow> s | Some i \<Rightarrow> take i s)"

section \<open>Rendering integers\<close>

definition hex_digits :: string where
  "hex_digits = ''0123456789abcdef''"

text \<open>The hexadecimal digits of a natural number, most significant first.\<close>

function hex_of_nat :: "nat \<Rightarrow> string" where
  "hex_of_nat n =
     (if n < 16 then [hex_digits ! n]
      else hex_of_nat (n div 16) @ [hex_digits ! (n mod 16)])"
  by pat_completeness auto
termination
  by (relation "measure (\<lambda>n. n)") auto

declare hex_of_nat.simps [simp del]

definition dec_digits :: string where
  "dec_digits = ''0123456789''"

function dec_of_nat :: "nat \<Rightarrow> string" where
  "dec_of_nat n =
     (if n < 10 then [dec_digits ! n]
      else dec_of_nat (n div 10) @ [dec_digits ! (n mod 10)])"
  by pat_completeness auto
termination
  by (relation "measure (\<lambda>n. n)") auto

declare dec_of_nat.simps [simp del]

text \<open>\<open>format(n, "x")\<close> and \<open>str(n)\<close> of a Python int: a minus sign, then the magnitude.\<close>

definition format_x :: "int \<Rightarrow> string" where
  "format_x n =
     (if n < 0 then CHR ''-'' # hex_of_nat (nat (- n)) else hex_of_nat (nat n))"

definition str_int :: "int \<Rightarrow> string" where
  "str_int n =
     (if n < 0 then CHR ''-'' # dec_of_nat (nat (- n)) else dec_of_nat (nat n))"

section \<open>Data model\<close>

text \<open>
  The value \<open>response.json()\<close> returns. An object is the list of the items of the
  Python dict, in iteration order, so its keys are pairwise distinct. Numbers are
  never inspected by the program; they only need to differ from strings and objects.
\<close>

datatype json =
    JNull
  | JBool bool
  | JNum int
  | JStr string
  | JArr "json list"
  | JObj "(string \<times> json) list"

text \<open>Exceptions raised by the libraries and the interpreter, as values.\<close>

datatype exn =
    RequestException
  | HTTPError
  | JSONDecodeError
  | AttributeError
  | ValueError
  | OSError
  | EOFError
  | ModuleNotFoundError string

text \<open>\<open>d.get(key, default)\<close> on a dict parsed from JSON.\<close>

definition dict_get :: "(string \<times> json) list \<Rightarrow> string \<Rightarrow> json \<Rightarrow> json" where
  "dict_get d k dflt = (case map_of d k of None \<Rightarrow> dflt | Some v \<Rightarrow> v)"

text \<open>
  A value of the revocation table: the dict \<open>{"status": ..., "reason": ...}\<close> that
  \<open>get_online_serial_list\<close> stores. It always has both keys, so it is truthy and
  the later \<open>status_info.get("status", "UNKNOWN")\<close> always finds its key.
\<close>

record entry =
  status :: json
  reason :: json

type_synonym table = "string \<rightharpoonup> entry"

text \<open>
  What \<open>x509.load_pem_x509_certificate\<close> returns, as far as the program reads it: the
  serial number and the attributes of the issuer name, in order.
\<close>

record name_attribute =
  attr_oid :: string
  attr_value :: string

record certificate =
  serial_number :: int
  issuer :: "name_attribute list"

text \<open>\<open>x509.NameOID.SERIAL_NUMBER\<close>\<close>

definition NameOID_SERIAL_NUMBER :: string where
  "NameOID_SERIAL_NUMBER = ''2.5.4.5''"

text \<open>What the program prints, one constructor for each \<open>print\<close> of the source.\<close>

datatype msg =
    DownloadingList
  | DownloadError exn
  | CertificateError exn
  | NoXmlFiles
  | Processing string
  | NoCertificatesFound
  | CertificateNumber nat
  | HexSerial string
  | IssuerSerial string
  | Status json
  | Reason json
  | FoundMatches int string
  | FinalResults
  | TotalKeyboxes int
  | ValidKeyboxes int
  | RevokedKeyboxes int
  | MatchingHeader
  | MatchingFile string
  | MatchingCertificate nat
  | MatchingStatus json
  | MatchingReason json
  | FilesToDelete
  | FileToDelete string
  | TotalToDelete nat
  | DeletingHeader
  | Deleted string
  | DeleteError string exn
  | TotalDeleted int
  | DeletionCancelled
  | InstallHint string

text \<open>What a run does to the outside world, in order.\<close>

datatype event =
    Print msg
  | HttpGet string
  | ListDir
  | ReadFile string
  | Prompt
  | Remove string

text \<open>
  The outside world of one run. A response carries the outcome of its two methods:
  \<open>raise_for_status()\<close> (the exception it raises, if any) and \<open>json()\<close>.
\<close>

record response =
  raise_for_status :: "exn option"
  json_body :: "exn + json"

record env =
  importable :: "string \<Rightarrow> bool"
  time_time :: int
  requests_get :: "string \<Rightarrow> exn + response"
  listdir :: "exn + string list"
  read_file :: "string \<Rightarrow> exn + string"
  load_pem_x509_certificate :: "string \<Rightarrow> exn + certificate"
  input_line :: "exn + string"
  os_remove :: "string \<Rightarrow> exn option"

section \<open>Fetching the revocation list\<close>

text \<open>
  The loop of \<open>get_online_serial_list\<close>. \<open>info.get\<close> raises \<open>AttributeError\<close> when
  \<open>info\<close> is not a dict.
\<close>

fun build_entries :: "(string \<times> json) list \<Rightarrow> table \<Rightarrow> exn + table" where
  "build_entries [] entries = Inr entries"
| "build_entries ((serial, info) # rest) entries =
     (case info of
        JObj d \<Rightarrow>
          build_entries rest
            (entries(lower serial \<mapsto>
               \<lparr>status = dict_get d ''status'' (JStr ''UNKNOWN''),
                reason = dict_get d ''reason'' (JStr ''UNSPECIFIED'')\<rparr>))
      | _ \<Rightarrow> Inl AttributeError)"

text \<open>The body of the \<open>try\<close>: every library call and attribute access may raise.\<close>

definition fetch_entries :: "env \<Rightarrow> string \<Rightarrow> exn + table" where
  "fetch_entries e url =
     (case requests_get e url of
        Inl x \<Rightarrow> Inl x
      | Inr resp \<Rightarrow>
          (case raise_for_status resp of
             Some x \<Rightarrow> Inl x
           | None \<Rightarrow>
               (case json_body resp of
                  Inl x \<Rightarrow> Inl x
                | Inr (JObj d) \<Rightarrow>
                    (case dict_get d ''entries'' (JObj []) of
                       JObj items \<Rightarrow> build_entries items Map.empty
                     | _ \<Rightarrow> Inl AttributeError)
                | Inr _ \<Rightarrow> Inl AttributeError)))"

text \<open>The table returned, and what the call did: the request, and the error printed.\<close>

definition get_online_serial_list :: "env \<Rightarrow> string \<Rightarrow> table \<times> event list" where
  "get_online_serial_list e url =
     (case fetch_entries e url of
        Inr entries \<Rightarrow> (entries, [HttpGet url])
      | Inl x \<Rightarrow> (Map.empty, [HttpGet url, Print (DownloadError x)]))"

section \<open>Evaluating one certificate\<close>

text \<open>The first issuer attribute with the serial-number OID, normalised; else \<open>None\<close>.\<close>

fun find_issuer_serial :: "name_attribute list \<Rightarrow> string option" where
  "find_issuer_serial [] = None"
| "find_issuer_serial (attr # attrs) =
     (if attr_oid attr = NameOID_SERIAL_NUMBER
      then Some (filter (\<lambda>c. c \<in> set ''abcdef0123456789'') (lower (attr_value attr)))
      else find_issuer_serial attrs)"

text \<open>Lines 32 and 33: the serial number in hexadecimal, stripped of zeros on the left.\<close>

definition hex_serial_of :: "certificate \<Rightarrow> string" where
  "hex_serial_of cert = lstrip ''0'' (lower (format_x (serial_number cert)))"

text \<open>\<open>key in online_serials\<close>\<close>

definition contains :: "table \<Rightarrow> string \<Rightarrow> bool" where
  "contains t k = (t k \<noteq> None)"

text \<open>
  \<open>process_certificate\<close> returns \<open>(hex_serial, issuer_serial, found, status_info)\<close>;
  the model adds what it printed. The exception is whatever the loader raises, or
  reading a field of the certificate. \<open>elif issuer_serial and ...\<close> tests
  truthiness: neither \<open>None\<close> nor the empty string passes.
\<close>

definition process_certificate ::
  "env \<Rightarrow> string \<Rightarrow> table \<Rightarrow>
     (string option \<times> string option \<times> bool \<times> entry option) \<times> event list" where
  "process_certificate e cert_pem online_serials =
     (case load_pem_x509_certificate e cert_pem of
        Inl x \<Rightarrow> ((None, None, False, None), [Print (CertificateError x)])
      | Inr cert \<Rightarrow>
          (let hex_serial = hex_serial_of cert;
               issuer_serial = find_issuer_serial (issuer cert);
               status_info =
                 (if contains online_serials hex_serial then online_serials hex_serial
                  else (case issuer_serial of
                          Some i \<Rightarrow>
                            if i \<noteq> [] \<and> contains online_serials i then online_serials i
                            else None
                        | None \<Rightarrow> None));
               found = (status_info \<noteq> None)
           in ((Some hex_serial, issuer_serial, found, status_info), [])))"

section \<open>Extracting the certificates of a file\<close>

definition CHAIN_END :: string where
  "CHAIN_END = ''</CertificateChain>''"

definition COMMENT_OPEN :: string where
  "COMMENT_OPEN = ''<!--''"

definition COMMENT_CLOSE :: string where
  "COMMENT_CLOSE = ''-->''"

definition BEGIN_CERT :: string where
  "BEGIN_CERT = ''-----BEGIN CERTIFICATE''"

definition END_CERT :: string where
  "END_CERT = ''-----END CERTIFICATE''"

definition DASHES :: string where
  "DASHES = ''-----''"

text \<open>
  \<open>re.sub(r"<!--.*?-->", "", s, flags=re.DOTALL)\<close>. The scan goes left to right; where
  the text opens a comment and a closing mark follows the opening one, the match
  runs to the nearest such mark and is dropped, and the scan goes on behind it.
  Elsewhere the character is kept.
\<close>

function remove_comments :: "string \<Rightarrow> string" where
  "remove_comments [] = []"
| "remove_comments (c # cs) =
     (if startswith (c # cs) COMMENT_OPEN then
        (case find_sub COMMENT_CLOSE (drop (length COMMENT_OPEN) (c # cs)) of
           Some j \<Rightarrow>
             remove_comments
               (drop (length COMMENT_OPEN + j + length COMMENT_CLOSE) (c # cs))
         | None \<Rightarrow> c # remove_comments cs)
      else c # remove_comments cs)"
  by pat_completeness auto
termination
  by (relation "measure length") (auto simp: COMMENT_OPEN_def)

text \<open>
  \<open>re.findall(r"(-----BEGIN CERTIFICATE.*?-----END CERTIFICATE.*?-----)", s, re.DOTALL)\<close>.
  A match starts where the text has the opening marker; the first lazy gap runs to
  the nearest closing marker behind it, the second to the nearest five dashes behind
  that. A later closing marker is followed by five dashes only if the nearest one is,
  so backtracking finds nothing else. The scan goes on behind a match, and one
  character further where there is none.
\<close>

function findall_certificates :: "string \<Rightarrow> string list" where
  "findall_certificates [] = []"
| "findall_certificates (c # cs) =
     (if startswith (c # cs) BEGIN_CERT then
        (case find_sub END_CERT (drop (length BEGIN_CERT) (c # cs)) of
           Some j \<Rightarrow>
             (let n = length BEGIN_CERT + j + length END_CERT in
              case find_sub DASHES (drop n (c # cs)) of
                Some k \<Rightarrow>
                  take (n + k + length DASHES) (c # cs)
                    # findall_certificates (drop (n + k + length DASHES) (c # cs))
              | None \<Rightarrow> findall_certificates cs)
         | None \<Rightarrow> findall_certificates cs)
      else findall_certificates cs)"
  by pat_completeness auto
termination
  by (relation "measure length") (auto simp: BEGIN_CERT_def)

text \<open>Lines 83 to 91 of \<open>main\<close>: truncate, drop the comments, collect the blocks.\<close>

definition extract_certificates :: "string \<Rightarrow> string list" where
  "extract_certificates text =
     findall_certificates (remove_comments (split_first CHAIN_END text))"

section \<open>The run\<close>

text \<open>An element of a list of \<open>files_with_matches\<close>.\<close>

record match =
  match_cert_number :: nat
  match_hex_serial :: "string option"
  match_issuer_serial :: "string option"
  match_status :: json
  match_reason :: json

text \<open>How the run stands: going on, ended by an uncaught exception, or by \<open>exit\<close>.\<close>

datatype outcome = Normal | Raised exn | Exited int

text \<open>
  The accumulators of \<open>main\<close>, the events so far and the outcome.
  \<open>files_with_matches\<close> is a \<open>defaultdict(list)\<close>: its items in insertion order.
\<close>

record state =
  found_count :: int
  total_count :: int
  files_with_matches :: "(string \<times> match list) list"
  files_to_delete :: "string list"
  trace :: "event list"
  outcome :: outcome

definition initial :: state where
  "initial =
     \<lparr>found_count = 0, total_count = 0, files_with_matches = [],
      files_to_delete = [], trace = [], outcome = Normal\<rparr>"

definition emit :: "event list \<Rightarrow> state \<Rightarrow> state" where
  "emit evs st = st\<lparr>trace := trace st @ evs\<rparr>"

text \<open>\<open>files_with_matches[xml_file].append(m)\<close>\<close>

fun append_match ::
  "string \<Rightarrow> match \<Rightarrow> (string \<times> match list) list \<Rightarrow> (string \<times> match list) list" where
  "append_match f m [] = [(f, [m])]"
| "append_match f m ((g, ms) # rest) =
     (if g = f then (g, ms @ [m]) # rest else (g, ms) # append_match f m rest)"

text \<open>\<open>x or 'N/A'\<close> for a value that is \<open>None\<close> or a string.\<close>

definition or_else :: "string option \<Rightarrow> string \<Rightarrow> string" where
  "or_else x d = (case x of None \<Rightarrow> d | Some s \<Rightarrow> if s = [] then d else s)"

text \<open>
  The body of the loop over the certificates of a file (lines 98 to 124), on the
  accumulators and the local counter \<open>file_matches\<close>.
\<close>

definition check_certificate ::
  "env \<Rightarrow> table \<Rightarrow> string \<Rightarrow> nat \<Rightarrow> string \<Rightarrow> state \<times> int \<Rightarrow> state \<times> int" where
  "check_certificate e online_serials xml_file i cert acc =
     (case acc of (st, file_matches) \<Rightarrow>
      case process_certificate e (strip cert) online_serials of
        ((hex_serial, issuer_serial, is_found, status_info), printed) \<Rightarrow>
          (let st1 = emit (printed @
                       [Print (CertificateNumber i),
                        Print (HexSerial (or_else hex_serial ''N/A'')),
                        Print (IssuerSerial (or_else issuer_serial ''N/A''))]) st
           in case status_info of
                None \<Rightarrow> (st1, file_matches)
              | Some info \<Rightarrow>
                  if \<not> is_found then (st1, file_matches)
                  else
                    (let st2 = emit [Print (Status (status info)),
                                     Print (Reason (reason info))] st1
                     in if status info = JStr ''REVOKED'' then
                          (st2\<lparr>found_count := found_count st2 + 1,
                               files_with_matches :=
                                 append_match xml_file
                                   \<lparr>match_cert_number = i,
                                    match_hex_serial = hex_serial,
                                    match_issuer_serial = issuer_serial,
                                    match_status = status info,
                                    match_reason = reason info\<rparr>
                                   (files_with_matches st2)\<rparr>,
                           file_matches + 1)
                        else (st2, file_matches))))"

text \<open>\<open>for i, cert in enumerate(certs, 1)\<close>\<close>

fun certs_loop ::
  "env \<Rightarrow> table \<Rightarrow> string \<Rightarrow> nat \<Rightarrow> string list \<Rightarrow> state \<times> int \<Rightarrow> state \<times> int" where
  "certs_loop e t f i [] acc = acc"
| "certs_loop e t f i (cert # certs) acc =
     certs_loop e t f (Suc i) certs (check_certificate e t f i cert acc)"

text \<open>
  The body of the loop over the files (lines 77 to 128). Opening or reading the file
  may raise, which nothing catches.
\<close>

definition process_file :: "env \<Rightarrow> table \<Rightarrow> string \<Rightarrow> state \<Rightarrow> state" where
  "process_file e online_serials xml_file st =
     (let st1 = emit [Print (Processing xml_file), ReadFile xml_file]
                  (st\<lparr>total_count := total_count st + 1\<rparr>)
      in case read_file e xml_file of
           Inl x \<Rightarrow> st1\<lparr>outcome := Raised x\<rparr>
         | Inr content \<Rightarrow>
             (let certs = extract_certificates content
              in if certs = [] then emit [Print NoCertificatesFound] st1
                 else
                   (case certs_loop e online_serials xml_file 1 certs (st1, 0) of
                      (st2, file_matches) \<Rightarrow>
                        if file_matches \<noteq> 0 then
                          (emit [Print (FoundMatches file_matches xml_file)] st2)
                            \<lparr>files_to_delete := files_to_delete st2 @ [xml_file]\<rparr>
                        else st2)))"

text \<open>\<open>for xml_file in xml_files\<close>; an uncaught exception ends the loop.\<close>

fun files_loop :: "env \<Rightarrow> table \<Rightarrow> string list \<Rightarrow> state \<Rightarrow> state" where
  "files_loop e t [] st = st"
| "files_loop e t (f # fs) st =
     (let st' = process_file e t f st
      in if outcome st' = Normal then files_loop e t fs st' else st')"

text \<open>Lines 130 to 144: the final results and the matches of each file.\<close>

definition print_match :: "match \<Rightarrow> event list" where
  "print_match m =
     [Print (MatchingCertificate (match_cert_number m)),
      Print (MatchingStatus (match_status m)),
      Print (MatchingReason (match_reason m))]"

definition report :: "state \<Rightarrow> state" where
  "report st =
     emit ([Print FinalResults,
            Print (TotalKeyboxes (total_count st)),
            Print (ValidKeyboxes (total_count st - found_count st)),
            Print (RevokedKeyboxes (found_count st))]
           @ (if files_with_matches st \<noteq> [] then
                Print MatchingHeader #
                concat (map (\<lambda>(file_name, matches).
                               Print (MatchingFile file_name) #
                               concat (map print_match matches))
                          (files_with_matches st))
              else [])) st"

text \<open>The deletion loop, on the events and the local counter \<open>deleted_count\<close>.\<close>

fun delete_loop :: "env \<Rightarrow> string list \<Rightarrow> event list \<times> int \<Rightarrow> event list \<times> int" where
  "delete_loop e [] acc = acc"
| "delete_loop e (f # fs) (evs, deleted_count) =
     (case os_remove e f of
        None \<Rightarrow> delete_loop e fs (evs @ [Remove f, Print (Deleted f)], deleted_count + 1)
      | Some x \<Rightarrow> delete_loop e fs (evs @ [Remove f, Print (DeleteError f x)], deleted_count))"

text \<open>Lines 146 to 175. \<open>input\<close> raises \<open>EOFError\<close> on a closed standard input.\<close>

definition confirm_and_delete :: "env \<Rightarrow> state \<Rightarrow> state" where
  "confirm_and_delete e st =
     (if files_to_delete st = [] then st
      else
        (let st1 = emit ([Print FilesToDelete]
                         @ map (\<lambda>f. Print (FileToDelete f)) (files_to_delete st)
                         @ [Print (TotalToDelete (length (files_to_delete st))), Prompt]) st
         in case input_line e of
              Inl x \<Rightarrow> st1\<lparr>outcome := Raised x\<rparr>
            | Inr answer \<Rightarrow>
                (let confirm = lower (strip answer)
                 in if confirm \<in> set ['''', ''y'', ''yes''] then
                      (case delete_loop e (files_to_delete st) ([], 0) of
                         (evs, deleted_count) \<Rightarrow>
                           emit ([Print DeletingHeader] @ evs
                                 @ [Print (TotalDeleted deleted_count)]) st1)
                    else emit [Print DeletionCancelled] st1)))"

definition ONLINE_LIST_URL :: "env \<Rightarrow> string" where
  "ONLINE_LIST_URL e =
     ''https://android.googleapis.com/attestation/status?'' @ str_int (time_time e)"

definition main :: "env \<Rightarrow> state" where
  "main e =
     (case get_online_serial_list e (ONLINE_LIST_URL e) of
        (online_serials, fetched) \<Rightarrow>
          (let st1 = emit ([Print DownloadingList] @ fetched @ [ListDir]) initial
           in case listdir e of
                Inl x \<Rightarrow> st1\<lparr>outcome := Raised x\<rparr>
              | Inr names \<Rightarrow>
                  (let xml_files = filter (\<lambda>f. endswith (lower f) ''.xml'') names
                   in if xml_files = [] then emit [Print NoXmlFiles] st1
                      else
                        (let st2 = files_loop e online_serials xml_files st1
                         in if outcome st2 = Normal
                            then confirm_and_delete e (report st2)
                            else st2))))"

section \<open>Running the script\<close>

text \<open>
  Lines 1 to 8 run first. An \<open>import\<close> of a library that is not installed raises
  \<open>ModuleNotFoundError\<close>, which nothing catches there. The modules of the standard
  library are always there.
\<close>

definition module_imports :: "env \<Rightarrow> exn option" where
  "module_imports e =
     (if \<not> importable e ''requests'' then Some (ModuleNotFoundError ''requests'')
      else if \<not> importable e ''colorama'' then Some (ModuleNotFoundError ''colorama'')
      else if \<not> importable e ''cryptography'' then Some (ModuleNotFoundError ''cryptography'')
      else None)"

text \<open>Lines 178 to 197, the block under \<open>if __name__ == "__main__"\<close>.\<close>

definition main_guard :: "env \<Rightarrow> state" where
  "main_guard e =
     (if \<not> importable e ''cryptography''
      then (emit [Print (InstallHint ''cryptography'')] initial)\<lparr>outcome := Exited 1\<rparr>
      else if \<not> importable e ''colorama''
      then (emit [Print (InstallHint ''colorama'')] initial)\<lparr>outcome := Exited 1\<rparr>
      else if \<not> importable e ''requests''
      then (emit [Print (InstallHint ''requests'')] initial)\<lparr>outcome := Exited 1\<rparr>
      else main e)"

definition run_script :: "env \<Rightarrow> state" where
  "run_script e =
     (case module_imports e of
        Some x \<Rightarrow> initial\<lparr>outcome := Raised x\<rparr>
      | None \<Rightarrow> main_guard e)"

text \<open>The exit status of the process: 1 after an uncaught exception.\<close>

fun exit_status :: "outcome \<Rightarrow> int" where
  "exit_status Normal = 0"
| "exit_status (Raised x) = 1"
| "exit_status (Exited n) = n"

section \<open>Vocabulary of the properties\<close>

text \<open>The entry that the lookup of a certificate block of a file returns, if any.\<close>

definition matched_entry :: "env \<Rightarrow> table \<Rightarrow> string \<Rightarrow> entry option" where
  "matched_entry e t cert = snd (snd (snd (fst (process_certificate e (strip cert) t))))"

text \<open>A block is revoked when its entry has the status \<open>"REVOKED"\<close>, a string, exactly.\<close>

definition is_revoked :: "env \<Rightarrow> table \<Rightarrow> string \<Rightarrow> bool" where
  "is_revoked e t cert =
     (case matched_entry e t cert of
        Some info \<Rightarrow> status info = JStr ''REVOKED''
      | None \<Rightarrow> False)"

text \<open>The number of revoked blocks of a file; none in a file that cannot be read.\<close>

definition revoked_count :: "env \<Rightarrow> table \<Rightarrow> string \<Rightarrow> nat" where
  "revoked_count e t f =
     (case read_file e f of
        Inr content \<Rightarrow> length (filter (is_revoked e t) (extract_certificates content))
      | Inl x \<Rightarrow> 0)"

text \<open>The files that the run scans and the table it uses.\<close>

definition xml_files_of :: "env \<Rightarrow> string list" where
  "xml_files_of e =
     (case listdir e of
        Inr names \<Rightarrow> filter (\<lambda>f. endswith (lower f) ''.xml'') names
      | Inl x \<Rightarrow> [])"

definition table_of :: "env \<Rightarrow> table" where
  "table_of e = fst (get_online_serial_list e (ONLINE_LIST_URL e))"

text \<open>An event that deletes a file.\<close>

fun is_remove :: "event \<Rightarrow> bool" where
  "is_remove (Remove f) = True"
| "is_remove _ = False"

text \<open>The files that the loop of \<open>main\<close> reaches: it ends at the first unreadable one.\<close>

fun scanned :: "env \<Rightarrow> string list \<Rightarrow> string list" where
  "scanned e [] = []"
| "scanned e (f # fs) =
     (case read_file e f of Inr content \<Rightarrow> f # scanned e fs | Inl x \<Rightarrow> [f])"

text \<open>The pattern \<open>p\<close> occurs in \<open>s\<close> at index \<open>i\<close>.\<close>

definition occurs_at :: "string \<Rightarrow> string \<Rightarrow> nat \<Rightarrow> bool" where
  "occurs_at p s i = (take (length p) (drop i s) = p)"


section \<open>Concrete inputs\<close>

text \<open>
  A table with a revoked serial, a serial whose status is in lower case and an entry
  under the empty string, and certificates to look up: serial 0x1a2b with issuer
  serial \<open>FF\<close>; serial 0x77 with an issuer serial that has no hexadecimal character.
\<close>

definition revoked_entry :: entry where
  "revoked_entry = \<lparr>status = JStr ''REVOKED'', reason = JStr ''KEY_COMPROMISE''\<rparr>"

definition lowercase_entry :: entry where
  "lowercase_entry = \<lparr>status = JStr ''revoked'', reason = JStr ''UNSPECIFIED''\<rparr>"

definition sample_table :: table where
  "sample_table = [''1a2b'' \<mapsto> revoked_entry, ''ff'' \<mapsto> lowercase_entry,
                   '''' \<mapsto> revoked_entry]"

definition sample_cert :: certificate where
  "sample_cert =
     \<lparr>serial_number = 6699,
      issuer = [\<lparr>attr_oid = ''2.5.4.3'', attr_value = ''CA''\<rparr>,
                \<lparr>attr_oid = ''2.5.4.5'', attr_value = ''FF''\<rparr>]\<rparr>"

definition odd_issuer_cert :: certificate where
  "odd_issuer_cert =
     \<lparr>serial_number = 119,
      issuer = [\<lparr>attr_oid = ''2.5.4.5'', attr_value = ''XYZ-''\<rparr>]\<rparr>"

definition loader_of :: "certificate \<Rightarrow> env \<Rightarrow> env" where
  "loader_of cert e = e\<lparr>load_pem_x509_certificate := (\<lambda>pem. Inr cert)\<rparr>"

definition pem_a :: string where
  "pem_a = ''-----BEGIN CERTIFICATE-----A-----END CERTIFICATE-----''"

definition pem_c :: string where
  "pem_c = ''-----BEGIN CERTIFICATE-----C-----END CERTIFICATE-----''"

definition ff_cert :: certificate where
  "ff_cert = \<lparr>serial_number = 255, issuer = []\<rparr>"

definition sample_json :: json where
  "sample_json =
     JObj [(''entries'',
            JObj [(''1A2B'', JObj [(''status'', JStr ''REVOKED''),
                                   (''reason'', JStr ''KEY_COMPROMISE'')]),
                  (''ff'', JObj [(''status'', JStr ''revoked'')]),
                  ('''', JObj [(''status'', JStr ''REVOKED''),
                               (''reason'', JStr ''KEY_COMPROMISE'')])])]"

definition a_xml :: string where
  "a_xml = ''<Keybox>'' @ pem_a @ '' <!-- '' @ pem_c @ '' --> '' @ pem_a
             @ ''</CertificateChain>'' @ pem_c"

definition c_xml :: string where
  "c_xml = ''<Keybox>'' @ pem_c @ ''</Keybox>''"

definition sample_env :: env where
  "sample_env =
     \<lparr>importable = (\<lambda>m. True),
      time_time = 1700000000,
      requests_get = (\<lambda>url. Inr \<lparr>raise_for_status = None, json_body = Inr sample_json\<rparr>),
      listdir = Inr [''a.xml'', ''notes.txt'', ''B.XML'', ''c.xml''],
      read_file = (\<lambda>f. if f = ''a.xml'' then Inr a_xml
                        else if f = ''B.XML'' then Inr ''<Keybox/>''
                        else if f = ''c.xml'' then Inr c_xml
                        else Inl OSError),
      load_pem_x509_certificate =
        (\<lambda>pem. if pem = pem_a then Inr sample_cert
                else if pem = pem_c then Inr ff_cert
                else Inl ValueError),
      input_line = Inr '' No '',
      os_remove = (\<lambda>f. None)\<rparr>"

text \<open>The same world without a network, with one file only, and without \<open>requests\<close>.\<close>

definition offline_env :: env where
  "offline_env = sample_env\<lparr>requests_get := (\<lambda>url. Inl RequestException)\<rparr>"

definition one_file_env :: env where
  "one_file_env = sample_env\<lparr>listdir := Inr [''a.xml'']\<rparr>"

definition no_requests_env :: env where
  "no_requests_env = sample_env\<lparr>importable := (\<lambda>m. m \<noteq> ''requests'')\<rparr>"

section \<open>Properties of the serial numbers\<close>

lemma lower_char_hex:
  "lower_char c \<in> set ''abcdef0123456789'' \<longleftrightarrow> c \<in> set ''0123456789abcdefABCDEF''"
  by (auto simp: lower_char_def ascii_uppercase_def ascii_lowercase_def)

lemma lower_char_hex_digit: "\<forall>c\<in>set hex_digits. lower_char c = c"
  by (simp add: hex_digits_def lower_char_def ascii_uppercase_def ascii_lowercase_def)

lemma lower_hex_digits: "set s \<subseteq> set hex_digits \<Longrightarrow> lower s = s"
  unfolding lower_def using lower_char_hex_digit by (intro map_idI) blast

lemma hex_digit_mem: "d < 16 \<Longrightarrow> hex_digits ! d \<in> set hex_digits"
  by (rule nth_mem) (simp add: hex_digits_def)

lemma hex_digit_zero: "d < 16 \<Longrightarrow> hex_digits ! d = CHR ''0'' \<longleftrightarrow> d = 0"
  using nth_eq_iff_index_eq[of hex_digits d 0] by (simp add: hex_digits_def)

lemma hex_of_nat_chars: "set (hex_of_nat n) \<subseteq> set hex_digits"
proof (induction n rule: hex_of_nat.induct)
  case (1 n)
  show ?case
  proof (cases "n < 16")
    case True
    then show ?thesis
      using hex_digit_mem[of n] by (subst hex_of_nat.simps) simp
  next
    case False
    then show ?thesis
      using 1 hex_digit_mem[of "n mod 16"] by (subst hex_of_nat.simps) simp
  qed
qed

lemma hex_of_nat_hd: "0 < n \<Longrightarrow> hex_of_nat n \<noteq> [] \<and> hd (hex_of_nat n) \<noteq> CHR ''0''"
proof (induction n rule: hex_of_nat.induct)
  case (1 n)
  show ?case
  proof (cases "n < 16")
    case True
    then show ?thesis
      using 1(2) hex_digit_zero[of n]
      by (subst hex_of_nat.simps, subst (2) hex_of_nat.simps) simp
  next
    case False
    then have "0 < n div 16"
      by (simp add: div_greater_zero_iff)
    with 1(1) False
    have "hex_of_nat (n div 16) \<noteq> [] \<and> hd (hex_of_nat (n div 16)) \<noteq> CHR ''0''"
      by simp
    then show ?thesis
      using False by (subst hex_of_nat.simps, subst (2) hex_of_nat.simps) simp
  qed
qed

text \<open>
  For a positive serial number the key is the plain hexadecimal numeral: not empty,
  made of the digits \<open>0-9a-f\<close>, and not starting with a zero.
\<close>

lemma hex_serial_of_positive:
  assumes "0 < serial_number cert"
  shows "hex_serial_of cert = hex_of_nat (nat (serial_number cert))"
    and "hex_serial_of cert \<noteq> []"
    and "set (hex_serial_of cert) \<subseteq> set hex_digits"
    and "hd (hex_serial_of cert) \<noteq> CHR ''0''"
proof -
  let ?h = "hex_of_nat (nat (serial_number cert))"
  have hd: "?h \<noteq> [] \<and> hd ?h \<noteq> CHR ''0''"
    using assms hex_of_nat_hd[of "nat (serial_number cert)"] by simp
  have "lower (format_x (serial_number cert)) = ?h"
    using assms by (simp add: format_x_def lower_hex_digits hex_of_nat_chars)
  moreover have "lstrip ''0'' ?h = ?h"
    using hd by (cases ?h) (simp_all add: lstrip_def)
  ultimately show eq: "hex_serial_of cert = ?h"
    by (simp add: hex_serial_of_def)
  show "hex_serial_of cert \<noteq> []" "hd (hex_serial_of cert) \<noteq> CHR ''0''"
    using hd eq by simp_all
  show "set (hex_serial_of cert) \<subseteq> set hex_digits"
    using eq hex_of_nat_chars by simp
qed

text \<open>
  C1. The key of a certificate is meant to be a non-empty hexadecimal string, the
  one digit \<open>0\<close> for the serial number zero. For the serial number zero the code
  returns the empty string: \<open>format\<close> gives \<open>0\<close>, and \<open>lstrip("0")\<close> strips it.
\<close>

theorem zero_serial_gives_empty_key:
  "fst (fst (process_certificate (loader_of (cert\<lparr>serial_number := 0\<rparr>) e) pem t))
     = Some []"
proof -
  have "hex_serial_of (cert\<lparr>serial_number := 0\<rparr>) = []"
    by (simp add: hex_serial_of_def format_x_def hex_of_nat.simps hex_digits_def
        lower_def lower_char_def ascii_uppercase_def ascii_lowercase_def lstrip_def)
  then show ?thesis
    by (simp add: process_certificate_def loader_of_def Let_def)
qed

section \<open>Properties of the extraction\<close>

lemma startswith_take: "startswith s p \<longleftrightarrow> take (length p) s = p"
  by (induction s p rule: startswith.induct) auto

lemma occurs_at_0: "occurs_at p s 0 \<longleftrightarrow> startswith s p"
  by (simp add: occurs_at_def startswith_take)

lemma occurs_at_Suc: "occurs_at p (c # cs) (Suc i) \<longleftrightarrow> occurs_at p cs i"
  by (simp add: occurs_at_def)





lemma occurs_at_drop: "occurs_at p (drop n t) j \<longleftrightarrow> occurs_at p t (n + j)"
  by (simp add: occurs_at_def add.commute)




lemma occurs_at_append_right: "occurs_at p (xs @ ys) (length xs + i) \<longleftrightarrow> occurs_at p ys i"
  by (simp add: occurs_at_def)











lemma remove_comments_none: "\<forall>i. \<not> occurs_at COMMENT_OPEN s i \<Longrightarrow> remove_comments s = s"
proof (induction s)
  case Nil
  then show ?case by simp
next
  case (Cons c cs)
  have "\<not> startswith (c # cs) COMMENT_OPEN"
    using Cons.prems occurs_at_0 by blast
  moreover have "\<forall>i. \<not> occurs_at COMMENT_OPEN cs i"
    using Cons.prems occurs_at_Suc by blast
  ultimately show ?case
    using Cons.IH by simp
qed

lemma findall_certificates_none:
  "\<forall>i. \<not> occurs_at BEGIN_CERT s i \<Longrightarrow> findall_certificates s = []"
proof (induction s)
  case Nil
  then show ?case by simp
next
  case (Cons c cs)
  have "\<not> startswith (c # cs) BEGIN_CERT"
    using Cons.prems occurs_at_0 by blast
  moreover have "\<forall>i. \<not> occurs_at BEGIN_CERT cs i"
    using Cons.prems occurs_at_Suc by blast
  ultimately show ?case
    using Cons.IH by simp
qed


section \<open>Properties of the lookup\<close>

lemma find_issuer_serial_find:
  "find_issuer_serial attrs =
     map_option (\<lambda>a. filter (\<lambda>c. c \<in> set ''abcdef0123456789'') (lower (attr_value a)))
       (List.find (\<lambda>a. attr_oid a = NameOID_SERIAL_NUMBER) attrs)"
  by (induction attrs) simp_all

lemma process_certificate_loaded:
  assumes "load_pem_x509_certificate e pem = Inr cert"
  shows "process_certificate e pem t =
           ((Some (hex_serial_of cert), find_issuer_serial (issuer cert),
             (if contains t (hex_serial_of cert) then t (hex_serial_of cert)
              else case find_issuer_serial (issuer cert) of
                     Some i \<Rightarrow> if i \<noteq> [] \<and> contains t i then t i else None
                   | None \<Rightarrow> None) \<noteq> None,
             (if contains t (hex_serial_of cert) then t (hex_serial_of cert)
              else case find_issuer_serial (issuer cert) of
                     Some i \<Rightarrow> if i \<noteq> [] \<and> contains t i then t i else None
                   | None \<Rightarrow> None)), [])"
  using assms by (simp add: process_certificate_def Let_def)

text \<open>
  C5. The table is asked for the key of the subject first. An entry stored under it is
  the one returned, whatever the table holds under the issuer serial. The issuer
  serial decides only when the subject key is absent: without an issuer serial
  nothing matches, with a non-empty one its entry is returned.
\<close>

theorem subject_serial_looked_up_first:
  assumes "load_pem_x509_certificate e pem = Inr cert"
    and "process_certificate e pem t = ((hex_serial, issuer_serial, found, status_info), printed)"
  shows "(\<forall>info. t (hex_serial_of cert) = Some info \<longrightarrow> status_info = Some info)
       \<and> (t (hex_serial_of cert) = None \<and> find_issuer_serial (issuer cert) = None
            \<longrightarrow> status_info = None)
       \<and> (\<forall>i. t (hex_serial_of cert) = None \<and> find_issuer_serial (issuer cert) = Some i
              \<and> i \<noteq> [] \<longrightarrow> status_info = t i)
       \<and> hex_serial = Some (hex_serial_of cert)
       \<and> issuer_serial = find_issuer_serial (issuer cert)
       \<and> found = (status_info \<noteq> None)"
  using assms(2) unfolding process_certificate_loaded[OF assms(1)]
  by (auto simp: contains_def split: option.splits if_splits)

text \<open>
  C10. When the first serial-number attribute of the issuer has no hexadecimal
  character, the issuer serial is the empty string, and the lookup is the lookup of
  the subject key alone: if that is absent nothing matches, even when the table has
  an entry under the empty string.
\<close>

theorem empty_issuer_serial_never_looked_up:
  assumes "load_pem_x509_certificate e pem = Inr cert"
    and "List.find (\<lambda>a. attr_oid a = NameOID_SERIAL_NUMBER) (issuer cert) = Some a"
    and "\<forall>c\<in>set (attr_value a). c \<notin> set ''0123456789abcdefABCDEF''"
    and "process_certificate e pem t = ((hex_serial, issuer_serial, found, status_info), printed)"
  shows "issuer_serial = Some []
       \<and> status_info = t (hex_serial_of cert)
       \<and> (t (hex_serial_of cert) = None \<longrightarrow> \<not> found \<and> status_info = None)"
proof -
  have "filter (\<lambda>c. c \<in> set ''abcdef0123456789'') (lower (attr_value a)) = []"
    unfolding lower_def filter_map filter_empty_conv o_def
    using assms(3) lower_char_hex by simp
  then have i: "find_issuer_serial (issuer cert) = Some []"
    using assms(2) by (simp add: find_issuer_serial_find)
  show ?thesis
    using assms(4) unfolding process_certificate_loaded[OF assms(1)] i
    by (auto simp: contains_def split: if_splits)
qed

section \<open>What the loops accumulate\<close>

lemma process_certificate_found:
  "process_certificate e p t = ((h, i, found, info), pr) \<Longrightarrow> found = (info \<noteq> None)"
  by (auto simp: process_certificate_def Let_def split: sum.splits)

lemma process_certificate_prints:
  "process_certificate e p t = (r, pr) \<Longrightarrow> \<forall>ev\<in>set pr. \<not> is_remove ev"
  by (auto simp: process_certificate_def Let_def split: sum.splits)

lemma check_certificate_effect:
  assumes "check_certificate e t f i cert (st, n) = (st', n')"
  shows "n' = n + (if is_revoked e t cert then 1 else 0)
       \<and> found_count st' = found_count st + (if is_revoked e t cert then 1 else 0)
       \<and> total_count st' = total_count st
       \<and> files_to_delete st' = files_to_delete st
       \<and> outcome st' = outcome st
       \<and> (\<exists>evs. trace st' = trace st @ evs \<and> (\<forall>ev\<in>set evs. \<not> is_remove ev))"
proof -
  obtain h iss found info pr
    where pc: "process_certificate e (strip cert) t = ((h, iss, found, info), pr)"
    by (metis surj_pair)
  have f: "found = (info \<noteq> None)"
    using process_certificate_found[OF pc] .
  have pr: "\<forall>ev\<in>set pr. \<not> is_remove ev"
    using process_certificate_prints[OF pc] .
  show ?thesis
    using assms pc f pr
    by (auto simp: check_certificate_def is_revoked_def matched_entry_def emit_def Let_def
        split: option.splits if_splits)
qed

lemma certs_loop_effect:
  "certs_loop e t f i certs (st, n) = (st', n') \<Longrightarrow>
     n' = n + int (length (filter (is_revoked e t) certs))
   \<and> found_count st' = found_count st + int (length (filter (is_revoked e t) certs))
   \<and> total_count st' = total_count st
   \<and> files_to_delete st' = files_to_delete st
   \<and> outcome st' = outcome st
   \<and> (\<exists>evs. trace st' = trace st @ evs \<and> (\<forall>ev\<in>set evs. \<not> is_remove ev))"
proof (induction certs arbitrary: i st n)
  case Nil
  then show ?case by simp
next
  case (Cons cert certs)
  obtain st1 n1 where step: "check_certificate e t f i cert (st, n) = (st1, n1)"
    by (metis surj_pair)
  with Cons.prems have rest: "certs_loop e t f (Suc i) certs (st1, n1) = (st', n')"
    by simp
  from check_certificate_effect[OF step] Cons.IH[OF rest]
  show ?case by auto
qed

lemma process_file_effect:
  "total_count (process_file e t f st) = total_count st + 1"
  "found_count (process_file e t f st) = found_count st + int (revoked_count e t f)"
  "files_to_delete (process_file e t f st) =
     files_to_delete st @ (if 0 < revoked_count e t f then [f] else [])"
  "outcome (process_file e t f st) =
     (case read_file e f of Inl x \<Rightarrow> Raised x | Inr content \<Rightarrow> outcome st)"
  "\<exists>evs. trace (process_file e t f st) = trace st @ evs \<and> (\<forall>ev\<in>set evs. \<not> is_remove ev)"
proof -
  let ?st1 = "emit [Print (Processing f), ReadFile f] (st\<lparr>total_count := total_count st + 1\<rparr>)"
  have all: "total_count (process_file e t f st) = total_count st + 1
     \<and> found_count (process_file e t f st) = found_count st + int (revoked_count e t f)
     \<and> files_to_delete (process_file e t f st) =
         files_to_delete st @ (if 0 < revoked_count e t f then [f] else [])
     \<and> outcome (process_file e t f st) =
         (case read_file e f of Inl x \<Rightarrow> Raised x | Inr content \<Rightarrow> outcome st)
     \<and> (\<exists>evs. trace (process_file e t f st) = trace st @ evs \<and> (\<forall>ev\<in>set evs. \<not> is_remove ev))"
  proof (cases "read_file e f")
    case (Inl x)
    then show ?thesis
      by (simp add: process_file_def revoked_count_def emit_def Let_def)
  next
    case (Inr content)
    show ?thesis
    proof (cases "extract_certificates content = []")
      case True
      with Inr show ?thesis
        by (simp add: process_file_def revoked_count_def emit_def Let_def)
    next
      case False
      obtain st2 n2 where loop:
        "certs_loop e t f 1 (extract_certificates content) (?st1, 0) = (st2, n2)"
        by (metis surj_pair)
      from certs_loop_effect[OF loop] Inr False loop show ?thesis
        by (auto simp: process_file_def revoked_count_def emit_def Let_def)
    qed
  qed
  from all show "total_count (process_file e t f st) = total_count st + 1" by simp
  from all show "found_count (process_file e t f st) = found_count st + int (revoked_count e t f)" by simp
  from all show "files_to_delete (process_file e t f st) =
     files_to_delete st @ (if 0 < revoked_count e t f then [f] else [])" by simp
  from all show "outcome (process_file e t f st) =
     (case read_file e f of Inl x \<Rightarrow> Raised x | Inr content \<Rightarrow> outcome st)" by simp
  from all show "\<exists>evs. trace (process_file e t f st) = trace st @ evs \<and> (\<forall>ev\<in>set evs. \<not> is_remove ev)" by simp
qed

lemma revoked_count_unreadable: "read_file e f = Inl x \<Longrightarrow> revoked_count e t f = 0"
  by (simp add: revoked_count_def)

lemma files_loop_effect:
  "outcome st = Normal \<Longrightarrow>
     total_count (files_loop e t fs st) = total_count st + int (length (scanned e fs))
   \<and> found_count (files_loop e t fs st)
       = found_count st + (\<Sum>f\<leftarrow>scanned e fs. int (revoked_count e t f))
   \<and> files_to_delete (files_loop e t fs st)
       = files_to_delete st @ filter (\<lambda>f. 0 < revoked_count e t f) (scanned e fs)
   \<and> (outcome (files_loop e t fs st) = Normal \<longleftrightarrow> scanned e fs = fs \<and> (\<forall>f\<in>set fs. \<exists>c. read_file e f = Inr c))
   \<and> (\<exists>evs. trace (files_loop e t fs st) = trace st @ evs \<and> (\<forall>ev\<in>set evs. \<not> is_remove ev))"
proof (induction fs arbitrary: st)
  case Nil
  then show ?case by simp
next
  case (Cons f fs)
  note pf = process_file_effect[of e t f st]
  show ?case
  proof (cases "read_file e f")
    case (Inl x)
    then show ?thesis
      using pf Cons.prems by (auto simp: Let_def revoked_count_unreadable)
  next
    case (Inr content)
    then have n: "outcome (process_file e t f st) = Normal"
      using pf(4) Cons.prems by simp
    from Cons.IH[OF n] pf Inr n show ?thesis
      by (auto simp: Let_def)
  qed
qed

lemma report_effect:
  "found_count (report st) = found_count st"
  "total_count (report st) = total_count st"
  "files_to_delete (report st) = files_to_delete st"
  "outcome (report st) = outcome st"
  "\<exists>evs. trace (report st) = trace st @ evs \<and> (\<forall>ev\<in>set evs. \<not> is_remove ev)"
  by (auto simp: report_def emit_def print_match_def)

lemma confirm_and_delete_effect:
  "found_count (confirm_and_delete e st) = found_count st"
  "total_count (confirm_and_delete e st) = total_count st"
  "files_to_delete (confirm_and_delete e st) = files_to_delete st"
  "\<exists>evs. trace (confirm_and_delete e st) = trace st @ evs"
  by (auto simp: confirm_and_delete_def emit_def Let_def split: sum.splits prod.splits)

lemma confirm_and_delete_quiet:
  assumes "files_to_delete st = []
         \<or> (\<forall>answer. input_line e = Inr answer
                \<longrightarrow> lower (strip answer) \<notin> set ['''', ''y'', ''yes''])"
  shows "\<exists>evs. trace (confirm_and_delete e st) = trace st @ evs
           \<and> (\<forall>ev\<in>set evs. \<not> is_remove ev)"
  using assms
  by (cases "input_line e") (auto simp: confirm_and_delete_def emit_def Let_def)

lemma confirm_and_delete_nothing:
  "files_to_delete st = [] \<Longrightarrow> confirm_and_delete e st = st"
  by (simp add: confirm_and_delete_def)

text \<open>What \<open>main\<close> leaves in its accumulators, in terms of the files and the table.\<close>

lemma main_effect:
  "files_to_delete (main e)
     = filter (\<lambda>f. 0 < revoked_count e (table_of e) f) (scanned e (xml_files_of e))"
  "found_count (main e)
     = (\<Sum>f\<leftarrow>scanned e (xml_files_of e). int (revoked_count e (table_of e) f))"
  "total_count (main e) = int (length (scanned e (xml_files_of e)))"
proof -
  obtain t fetched where g: "get_online_serial_list e (ONLINE_LIST_URL e) = (t, fetched)"
    by (metis surj_pair)
  then have t: "table_of e = t"
    by (simp add: table_of_def)
  let ?st1 = "emit ([Print DownloadingList] @ fetched @ [ListDir]) initial"
  have st1: "outcome ?st1 = Normal" "files_to_delete ?st1 = []" "found_count ?st1 = 0"
    "total_count ?st1 = 0"
    by (simp_all add: emit_def initial_def)
  have "files_to_delete (main e)
     = filter (\<lambda>f. 0 < revoked_count e (table_of e) f) (scanned e (xml_files_of e))
    \<and> found_count (main e)
     = (\<Sum>f\<leftarrow>scanned e (xml_files_of e). int (revoked_count e (table_of e) f))
    \<and> total_count (main e) = int (length (scanned e (xml_files_of e)))"
  proof (cases "listdir e")
    case (Inl x)
    then show ?thesis
      using g st1 by (simp add: main_def xml_files_of_def Let_def)
  next
    case (Inr names)
    let ?fs = "filter (\<lambda>f. endswith (lower f) ''.xml'') names"
    have fs: "xml_files_of e = ?fs"
      using Inr by (simp add: xml_files_of_def)
    show ?thesis
    proof (cases "?fs = []")
      case True
      then show ?thesis
        using g st1 Inr fs by (simp add: main_def Let_def emit_def)
    next
      case False
      note loop = files_loop_effect[OF st1(1), of e t ?fs]
      show ?thesis
        using g Inr False fs t loop st1
        by (simp add: main_def Let_def report_effect confirm_and_delete_effect)
    qed
  qed
  then show
    "files_to_delete (main e)
       = filter (\<lambda>f. 0 < revoked_count e (table_of e) f) (scanned e (xml_files_of e))"
    "found_count (main e)
       = (\<Sum>f\<leftarrow>scanned e (xml_files_of e). int (revoked_count e (table_of e) f))"
    "total_count (main e) = int (length (scanned e (xml_files_of e)))"
    by simp_all
qed

lemma main_trace:
  "\<exists>evs. trace (main e)
     = [Print DownloadingList] @ snd (get_online_serial_list e (ONLINE_LIST_URL e))
         @ [ListDir] @ evs"
proof -
  obtain t fetched where g: "get_online_serial_list e (ONLINE_LIST_URL e) = (t, fetched)"
    by (metis surj_pair)
  let ?st1 = "emit ([Print DownloadingList] @ fetched @ [ListDir]) initial"
  have st1: "outcome ?st1 = Normal" "trace ?st1 = [Print DownloadingList] @ fetched @ [ListDir]"
    by (simp_all add: emit_def initial_def)
  show ?thesis
  proof (cases "listdir e")
    case (Inl x)
    then show ?thesis
      using g st1 by (simp add: main_def Let_def)
  next
    case (Inr names)
    let ?fs = "filter (\<lambda>f. endswith (lower f) ''.xml'') names"
    from files_loop_effect[OF st1(1), of e t ?fs]
    obtain evs1 where e1: "trace (files_loop e t ?fs ?st1) = trace ?st1 @ evs1"
      by blast
    from report_effect(5)[of "files_loop e t ?fs ?st1"]
    obtain evs2 where e2:
      "trace (report (files_loop e t ?fs ?st1)) = trace (files_loop e t ?fs ?st1) @ evs2"
      by blast
    from confirm_and_delete_effect(4)[of e "report (files_loop e t ?fs ?st1)"]
    obtain evs3 where e3:
      "trace (confirm_and_delete e (report (files_loop e t ?fs ?st1)))
         = trace (report (files_loop e t ?fs ?st1)) @ evs3"
      by blast
    show ?thesis
      using g Inr st1 e1 e2 e3 by (simp add: main_def Let_def emit_def)
  qed
qed

lemma main_quiet:
  assumes "files_to_delete (main e) = []
         \<or> (\<forall>answer. input_line e = Inr answer
                \<longrightarrow> lower (strip answer) \<notin> set ['''', ''y'', ''yes''])"
  shows "\<forall>ev\<in>set (trace (main e)). \<not> is_remove ev"
proof -
  obtain t fetched where g: "get_online_serial_list e (ONLINE_LIST_URL e) = (t, fetched)"
    by (metis surj_pair)
  have fetched: "\<forall>ev\<in>set fetched. \<not> is_remove ev"
    using g by (auto simp: get_online_serial_list_def split: sum.splits)
  let ?st1 = "emit ([Print DownloadingList] @ fetched @ [ListDir]) initial"
  have st1: "outcome ?st1 = Normal" "\<forall>ev\<in>set (trace ?st1). \<not> is_remove ev"
    using fetched by (simp_all add: emit_def initial_def)
  show ?thesis
  proof (cases "listdir e")
    case (Inl x)
    then show ?thesis
      using g st1 by (simp add: main_def Let_def)
  next
    case (Inr names)
    let ?fs = "filter (\<lambda>f. endswith (lower f) ''.xml'') names"
    let ?st2 = "files_loop e t ?fs ?st1"
    from files_loop_effect[OF st1(1), of e t ?fs] st1(2)
    have l: "\<forall>ev\<in>set (trace ?st2). \<not> is_remove ev"
      by auto
    from report_effect(5)[of ?st2] l
    have r: "\<forall>ev\<in>set (trace (report ?st2)). \<not> is_remove ev"
      by auto
    have c: "\<forall>ev\<in>set (trace (confirm_and_delete e (report ?st2))). \<not> is_remove ev"
      if run: "main e = confirm_and_delete e (report ?st2)"
    proof -
      have "files_to_delete (report ?st2) = files_to_delete (main e)"
        using run by (simp add: confirm_and_delete_effect(3))
      with assms confirm_and_delete_quiet[of "report ?st2" e] r show ?thesis
        by auto
    qed
    show ?thesis
      using g Inr st1 l c by (auto simp: main_def Let_def emit_def)
  qed
qed

lemma scanned_readable:
  "\<forall>f\<in>set fs. \<exists>c. read_file e f = Inr c \<Longrightarrow> scanned e fs = fs"
  by (induction fs) auto

text \<open>A run that can read every file prints the final results, and asks when it has
  files to delete.\<close>

lemma main_summary:
  assumes "xml_files_of e \<noteq> []"
    and "\<forall>f\<in>set (xml_files_of e). \<exists>c. read_file e f = Inr c"
  shows "Print (TotalKeyboxes (total_count (main e))) \<in> set (trace (main e))"
    and "Print (ValidKeyboxes (total_count (main e) - found_count (main e)))
           \<in> set (trace (main e))"
    and "Print (RevokedKeyboxes (found_count (main e))) \<in> set (trace (main e))"
    and "files_to_delete (main e) \<noteq> [] \<Longrightarrow> Prompt \<in> set (trace (main e))"
proof -
  obtain t fetched where g: "get_online_serial_list e (ONLINE_LIST_URL e) = (t, fetched)"
    by (metis surj_pair)
  obtain names where names: "listdir e = Inr names"
    using assms(1) by (cases "listdir e") (simp_all add: xml_files_of_def)
  let ?fs = "filter (\<lambda>f. endswith (lower f) ''.xml'') names"
  let ?st1 = "emit ([Print DownloadingList] @ fetched @ [ListDir]) initial"
  let ?st2 = "files_loop e t ?fs ?st1"
  have fs: "xml_files_of e = ?fs"
    using names by (simp add: xml_files_of_def)
  have st1: "outcome ?st1 = Normal"
    by (simp add: emit_def initial_def)
  have st2: "outcome ?st2 = Normal"
    using files_loop_effect[OF st1, of e t ?fs] assms(2) scanned_readable[of ?fs e] fs
    by simp
  have run: "main e = confirm_and_delete e (report ?st2)"
    using g names assms(1) fs st2 by (simp add: main_def Let_def)
  obtain evs where evs: "trace (main e) = trace (report ?st2) @ evs"
    using confirm_and_delete_effect(4)[of e "report ?st2"] run by auto
  have counts: "total_count (main e) = total_count ?st2" "found_count (main e) = found_count ?st2"
    by (simp_all add: run confirm_and_delete_effect report_effect)
  have printed: "Print (TotalKeyboxes (total_count ?st2)) \<in> set (trace (report ?st2))"
    "Print (ValidKeyboxes (total_count ?st2 - found_count ?st2)) \<in> set (trace (report ?st2))"
    "Print (RevokedKeyboxes (found_count ?st2)) \<in> set (trace (report ?st2))"
    by (simp_all add: report_def emit_def)
  show "Print (TotalKeyboxes (total_count (main e))) \<in> set (trace (main e))"
    "Print (ValidKeyboxes (total_count (main e) - found_count (main e))) \<in> set (trace (main e))"
    "Print (RevokedKeyboxes (found_count (main e))) \<in> set (trace (main e))"
    using printed evs counts by simp_all
  show "Prompt \<in> set (trace (main e))" if "files_to_delete (main e) \<noteq> []"
  proof -
    have "files_to_delete (report ?st2) \<noteq> []"
      using that run by (simp add: confirm_and_delete_effect(3))
    then have "Prompt \<in> set (trace (confirm_and_delete e (report ?st2)))"
      by (auto simp: confirm_and_delete_def emit_def Let_def split: sum.splits prod.splits)
    then show ?thesis
      using run by simp
  qed
qed

section \<open>Properties of the run\<close>

lemma revoked_count_pos:
  assumes "read_file e f = Inr content"
  shows "0 < revoked_count e t f \<longleftrightarrow> (\<exists>c\<in>set (extract_certificates content). is_revoked e t c)"
  using assms by (simp add: revoked_count_def filter_empty_conv)

lemma check_certificate_matched:
  assumes "matched_entry e t cert = Some info"
    and "check_certificate e t f i cert (st, n) = (st', n')"
  shows "Print (Status (status info)) \<in> set (trace st')"
    and "Print (Reason (reason info)) \<in> set (trace st')"
    and "status info \<noteq> JStr ''REVOKED'' \<Longrightarrow> files_with_matches st' = files_with_matches st"
proof -
  obtain h iss found pr
    where pc: "process_certificate e (strip cert) t = ((h, iss, found, Some info), pr)"
    using assms(1) unfolding matched_entry_def
    by (metis fst_conv snd_conv surj_pair)
  have f: "found"
    using process_certificate_found[OF pc] by simp
  show "Print (Status (status info)) \<in> set (trace st')"
    "Print (Reason (reason info)) \<in> set (trace st')"
    "status info \<noteq> JStr ''REVOKED'' \<Longrightarrow> files_with_matches st' = files_with_matches st"
    using assms(2) pc f
    by (auto simp: check_certificate_def emit_def Let_def split: if_splits)
qed

text \<open>
  C2. A certificate whose lookup returns an entry is counted as revoked, and its file
  marked for deletion, exactly when the status of the entry is the string
  \<open>"REVOKED"\<close>. Any other status is printed, and neither counted nor a reason to
  mark the file.
\<close>

theorem revoked_only_on_exact_status:
  assumes "read_file e f = Inr content"
    and "cert \<in> set (extract_certificates content)"
    and "matched_entry e t cert = Some info"
    and "check_certificate e t f i cert (st, n) = (st', n')"
  shows "(status info = JStr ''REVOKED'' \<longrightarrow>
            n' = n + 1 \<and> found_count st' = found_count st + 1
            \<and> files_to_delete (process_file e t f st0) = files_to_delete st0 @ [f])
       \<and> (status info \<noteq> JStr ''REVOKED'' \<longrightarrow>
            n' = n \<and> found_count st' = found_count st
            \<and> files_with_matches st' = files_with_matches st)
       \<and> Print (Status (status info)) \<in> set (trace st')
       \<and> Print (Reason (reason info)) \<in> set (trace st')
       \<and> ((\<forall>c\<in>set (extract_certificates content). \<forall>i. matched_entry e t c = Some i
              \<longrightarrow> status i \<noteq> JStr ''REVOKED'')
            \<longrightarrow> files_to_delete (process_file e t f st0) = files_to_delete st0)"
proof -
  have rev: "is_revoked e t cert \<longleftrightarrow> status info = JStr ''REVOKED''"
    using assms(3) by (simp add: is_revoked_def)
  have marked: "status info = JStr ''REVOKED''
      \<Longrightarrow> files_to_delete (process_file e t f st0) = files_to_delete st0 @ [f]"
    using rev assms(2) revoked_count_pos[OF assms(1), of t]
    by (auto simp: process_file_effect(3))
  have unmarked: "\<forall>c\<in>set (extract_certificates content). \<forall>i. matched_entry e t c = Some i
        \<longrightarrow> status i \<noteq> JStr ''REVOKED''
      \<Longrightarrow> files_to_delete (process_file e t f st0) = files_to_delete st0"
    using revoked_count_pos[OF assms(1), of t]
    by (auto simp: process_file_effect(3) is_revoked_def split: option.splits)
  show ?thesis
    using check_certificate_effect[OF assms(4)] check_certificate_matched[OF assms(3,4)]
      rev marked unmarked
    by auto
qed


lemma fetch_failure:
  assumes "requests_get e url = Inl x
         \<or> (\<exists>r. requests_get e url = Inr r
               \<and> (raise_for_status r = Some x
                  \<or> raise_for_status r = None \<and> json_body r = Inl x))"
  shows "get_online_serial_list e url = (Map.empty, [HttpGet url, Print (DownloadError x)])"
  using assms by (auto simp: get_online_serial_list_def fetch_entries_def)

lemma matched_entry_empty: "matched_entry e Map.empty cert = None"
  by (auto simp: matched_entry_def process_certificate_def contains_def Let_def
      split: sum.splits option.splits)

lemma revoked_count_empty: "revoked_count e Map.empty f = 0"
  by (simp add: revoked_count_def is_revoked_def matched_entry_empty split: sum.splits)

text \<open>
  C4. When the request fails, the status is an error or the body is not JSON,
  \<open>get_online_serial_list\<close> prints the error and returns the empty table; the run
  goes on to list the directory, no certificate of any file matches, and no file is
  counted, marked for deletion or deleted.
\<close>

theorem fetch_failure_gives_empty_table:
  assumes "requests_get e (ONLINE_LIST_URL e) = Inl x
         \<or> (\<exists>r. requests_get e (ONLINE_LIST_URL e) = Inr r
               \<and> (raise_for_status r = Some x
                  \<or> raise_for_status r = None \<and> json_body r = Inl x))"
  shows "get_online_serial_list e (ONLINE_LIST_URL e)
           = (Map.empty, [HttpGet (ONLINE_LIST_URL e), Print (DownloadError x)])
       \<and> (\<exists>evs. trace (main e)
             = [Print DownloadingList, HttpGet (ONLINE_LIST_URL e),
                Print (DownloadError x), ListDir] @ evs)
       \<and> (\<forall>cert. matched_entry e (table_of e) cert = None)
       \<and> found_count (main e) = 0
       \<and> files_to_delete (main e) = []
       \<and> (\<forall>f. Remove f \<notin> set (trace (main e)))"
proof -
  note g = fetch_failure[OF assms]
  then have t: "table_of e = Map.empty"
    by (simp add: table_of_def)
  have d: "files_to_delete (main e) = []" and c: "found_count (main e) = 0"
    by (simp_all add: main_effect t revoked_count_empty)
  obtain evs where evs: "trace (main e)
      = [Print DownloadingList] @ snd (get_online_serial_list e (ONLINE_LIST_URL e))
          @ [ListDir] @ evs"
    using main_trace by blast
  have no_remove: "\<forall>f. Remove f \<notin> set (trace (main e))"
    using main_quiet[of e] d by auto
  show ?thesis
    using g t d c evs no_remove by (simp add: matched_entry_empty)
qed

text \<open>
  C9. A file in which no certificate block is found: the run prints that it found
  none, looks up nothing, leaves every accumulator but the file count as it was, and
  the file is not in the deletion list of the run.
\<close>

theorem file_without_certificates:
  assumes "read_file e f = Inr content"
    and "extract_certificates content = []"
  shows "process_file e t f st
           = emit [Print (Processing f), ReadFile f, Print NoCertificatesFound]
               (st\<lparr>total_count := total_count st + 1\<rparr>)
       \<and> f \<notin> set (files_to_delete (main e))"
proof -
  have "revoked_count e (table_of e) f = 0"
    using assms by (simp add: revoked_count_def)
  then have "f \<notin> set (files_to_delete (main e))"
    by (simp add: main_effect(1))
  then show ?thesis
    using assms by (simp add: process_file_def emit_def Let_def)
qed

section \<open>The properties on the concrete inputs\<close>

lemmas string_eval = lower_def lower_char_def ascii_uppercase_def ascii_lowercase_def
  strip_def isspace_def whitespace_def lstrip_def

lemmas serial_eval = hex_serial_of_def format_x_def hex_of_nat.simps hex_digits_def
  NameOID_SERIAL_NUMBER_def

lemmas extract_eval = extract_certificates_def split_first_def CHAIN_END_def
  COMMENT_OPEN_def COMMENT_CLOSE_def BEGIN_CERT_def END_CERT_def DASHES_def

lemma hex_serial_of_sample: "hex_serial_of sample_cert = ''1a2b''"
  "hex_serial_of ff_cert = ''ff''" "hex_serial_of odd_issuer_cert = ''77''"
  by (simp_all add: sample_cert_def ff_cert_def odd_issuer_cert_def serial_eval string_eval)

lemma issuer_serial_sample: "find_issuer_serial (issuer sample_cert) = Some ''ff''"
  "find_issuer_serial (issuer ff_cert) = None"
  by (simp_all add: sample_cert_def ff_cert_def serial_eval string_eval)

theorem subject_serial_looked_up_first_witness:
  "sample_table (hex_serial_of sample_cert) = Some revoked_entry
   \<and> find_issuer_serial (issuer sample_cert) = Some ''ff''
   \<and> sample_table ''ff'' = Some lowercase_entry
   \<and> fst (process_certificate (loader_of sample_cert sample_env) pem_a sample_table)
       = (Some ''1a2b'', Some ''ff'', True, Some revoked_entry)"
proof -
  let ?e = "loader_of sample_cert sample_env"
  obtain h i found info pr
    where pc: "process_certificate ?e pem_a sample_table = ((h, i, found, info), pr)"
    by (metis surj_pair)
  have l: "load_pem_x509_certificate ?e pem_a = Inr sample_cert"
    by (simp add: loader_of_def)
  have t: "sample_table (hex_serial_of sample_cert) = Some revoked_entry"
    "sample_table ''ff'' = Some lowercase_entry"
    by (simp_all add: hex_serial_of_sample sample_table_def)
  from subject_serial_looked_up_first[OF l pc] t pc
  show ?thesis
    by (simp add: hex_serial_of_sample issuer_serial_sample)
qed

theorem empty_issuer_serial_never_looked_up_witness:
  "sample_table [] = Some revoked_entry
   \<and> sample_table (hex_serial_of odd_issuer_cert) = None
   \<and> fst (snd (fst (process_certificate (loader_of odd_issuer_cert sample_env) pem_a
                       sample_table))) = Some []
   \<and> snd (snd (fst (process_certificate (loader_of odd_issuer_cert sample_env) pem_a
                       sample_table))) = (False, None)"
proof -
  let ?e = "loader_of odd_issuer_cert sample_env"
  let ?a = "\<lparr>attr_oid = ''2.5.4.5'', attr_value = ''XYZ-''\<rparr>"
  obtain h i found info pr
    where pc: "process_certificate ?e pem_a sample_table = ((h, i, found, info), pr)"
    by (metis surj_pair)
  have l: "load_pem_x509_certificate ?e pem_a = Inr odd_issuer_cert"
    by (simp add: loader_of_def)
  have a: "List.find (\<lambda>a. attr_oid a = NameOID_SERIAL_NUMBER) (issuer odd_issuer_cert) = Some ?a"
    by (simp add: odd_issuer_cert_def NameOID_SERIAL_NUMBER_def)
  have v: "\<forall>c\<in>set (attr_value ?a). c \<notin> set ''0123456789abcdefABCDEF''"
    by simp
  have t: "sample_table [] = Some revoked_entry"
    "sample_table (hex_serial_of odd_issuer_cert) = None"
    by (simp_all add: hex_serial_of_sample sample_table_def)
  from empty_issuer_serial_never_looked_up[OF l a v pc] t pc
  show ?thesis
    by simp
qed

lemma extract_samples:
  "extract_certificates a_xml = [pem_a, pem_a]"
  "extract_certificates c_xml = [pem_c]"
  "extract_certificates ''<Keybox/>'' = []"
  by (simp_all add: a_xml_def c_xml_def pem_a_def pem_c_def extract_eval)

lemma strip_samples: "strip pem_a = pem_a" "strip pem_c = pem_c"
  by (simp_all add: pem_a_def pem_c_def string_eval)

lemma matched_samples:
  "matched_entry sample_env sample_table pem_a = Some revoked_entry"
  "matched_entry sample_env sample_table pem_c = Some lowercase_entry"
proof -
  have l: "load_pem_x509_certificate sample_env pem_a = Inr sample_cert"
    "load_pem_x509_certificate sample_env pem_c = Inr ff_cert"
    by (simp_all add: sample_env_def pem_a_def pem_c_def)
  show "matched_entry sample_env sample_table pem_a = Some revoked_entry"
    "matched_entry sample_env sample_table pem_c = Some lowercase_entry"
    by (simp_all add: matched_entry_def strip_samples process_certificate_loaded[OF l(1)]
        process_certificate_loaded[OF l(2)] hex_serial_of_sample sample_table_def contains_def)
qed

theorem revoked_only_on_exact_status_witness:
  "read_file sample_env ''c.xml'' = Inr c_xml
   \<and> extract_certificates c_xml = [pem_c]
   \<and> matched_entry sample_env sample_table pem_c = Some lowercase_entry
   \<and> status lowercase_entry = JStr ''revoked''
   \<and> snd (check_certificate sample_env sample_table ''c.xml'' 1 pem_c (initial, 0)) = 0
   \<and> files_to_delete (process_file sample_env sample_table ''c.xml'' initial) = []
   \<and> read_file sample_env ''a.xml'' = Inr a_xml
   \<and> extract_certificates a_xml = [pem_a, pem_a]
   \<and> matched_entry sample_env sample_table pem_a = Some revoked_entry
   \<and> status revoked_entry = JStr ''REVOKED''
   \<and> snd (check_certificate sample_env sample_table ''a.xml'' 1 pem_a (initial, 0)) = 1
   \<and> files_to_delete (process_file sample_env sample_table ''a.xml'' initial) = [''a.xml'']"
proof -
  obtain st' n' where c:
    "check_certificate sample_env sample_table ''c.xml'' 1 pem_c (initial, 0) = (st', n')"
    by (metis surj_pair)
  obtain st'' n'' where a:
    "check_certificate sample_env sample_table ''a.xml'' 1 pem_a (initial, 0) = (st'', n'')"
    by (metis surj_pair)
  have rc: "read_file sample_env ''c.xml'' = Inr c_xml"
    and ra: "read_file sample_env ''a.xml'' = Inr a_xml"
    by (simp_all add: sample_env_def)
  have mc: "pem_c \<in> set (extract_certificates c_xml)"
    and ma: "pem_a \<in> set (extract_certificates a_xml)"
    by (simp_all add: extract_samples)
  have s: "status lowercase_entry = JStr ''revoked''" "status revoked_entry = JStr ''REVOKED''"
    by (simp_all add: lowercase_entry_def revoked_entry_def)
  from revoked_only_on_exact_status[OF rc mc matched_samples(2) c, of initial]
    revoked_only_on_exact_status[OF ra ma matched_samples(1) a, of initial]
  show ?thesis
    using c a rc ra s by (simp add: extract_samples matched_samples initial_def)
qed

theorem file_without_certificates_witness:
  "read_file sample_env ''B.XML'' = Inr ''<Keybox/>''
   \<and> extract_certificates ''<Keybox/>'' = []
   \<and> trace (process_file sample_env sample_table ''B.XML'' initial)
       = [Print (Processing ''B.XML''), ReadFile ''B.XML'', Print NoCertificatesFound]
   \<and> files_to_delete (process_file sample_env sample_table ''B.XML'' initial) = []
   \<and> ''B.XML'' \<notin> set (files_to_delete (main sample_env))"
proof -
  have r: "read_file sample_env ''B.XML'' = Inr ''<Keybox/>''"
    by (simp add: sample_env_def)
  from file_without_certificates[OF r extract_samples(3), of sample_table initial]
  show ?thesis
    using r by (simp add: extract_samples emit_def initial_def)
qed

theorem fetch_failure_gives_empty_table_witness:
  "requests_get offline_env (ONLINE_LIST_URL offline_env) = Inl RequestException
   \<and> table_of offline_env = Map.empty
   \<and> take 4 (trace (main offline_env))
       = [Print DownloadingList, HttpGet (ONLINE_LIST_URL offline_env),
          Print (DownloadError RequestException), ListDir]
   \<and> files_to_delete (main offline_env) = []
   \<and> Remove ''a.xml'' \<notin> set (trace (main offline_env))"
proof -
  have r: "requests_get offline_env (ONLINE_LIST_URL offline_env) = Inl RequestException"
    by (simp add: offline_env_def)
  from fetch_failure_gives_empty_table[of offline_env RequestException] r
  show ?thesis
    by (auto simp: table_of_def)
qed

lemma fetched_sample: "get_online_serial_list sample_env url = (sample_table, [HttpGet url])"
  by (simp add: get_online_serial_list_def fetch_entries_def sample_env_def sample_json_def
      dict_get_def sample_table_def revoked_entry_def lowercase_entry_def string_eval)

lemma process_certificate_samples:
  "process_certificate sample_env pem_a sample_table
     = ((Some ''1a2b'', Some ''ff'', True, Some revoked_entry), [])"
  "process_certificate sample_env pem_c sample_table
     = ((Some ''ff'', None, True, Some lowercase_entry), [])"
proof -
  have l: "load_pem_x509_certificate sample_env pem_a = Inr sample_cert"
    "load_pem_x509_certificate sample_env pem_c = Inr ff_cert"
    by (simp_all add: sample_env_def pem_a_def pem_c_def)
  show "process_certificate sample_env pem_a sample_table
     = ((Some ''1a2b'', Some ''ff'', True, Some revoked_entry), [])"
    "process_certificate sample_env pem_c sample_table
     = ((Some ''ff'', None, True, Some lowercase_entry), [])"
    by (simp_all add: process_certificate_loaded[OF l(1)] process_certificate_loaded[OF l(2)]
        hex_serial_of_sample issuer_serial_sample sample_table_def contains_def)
qed

lemma sample_env_fields:
  "listdir sample_env = Inr [''a.xml'', ''notes.txt'', ''B.XML'', ''c.xml'']"
  "read_file sample_env ''a.xml'' = Inr a_xml"
  "read_file sample_env ''B.XML'' = Inr ''<Keybox/>''"
  "read_file sample_env ''c.xml'' = Inr c_xml"
  "input_line sample_env = Inr '' No ''"
  by (simp_all add: sample_env_def)




lemma revoked_samples:
  "is_revoked sample_env sample_table pem_a"
  "\<not> is_revoked sample_env sample_table pem_c"
  by (simp_all add: is_revoked_def matched_samples revoked_entry_def lowercase_entry_def)

lemma revoked_count_sample:
  "revoked_count sample_env sample_table ''a.xml'' = 2"
  "revoked_count sample_env sample_table ''B.XML'' = 0"
  "revoked_count sample_env sample_table ''c.xml'' = 0"
  by (simp_all add: revoked_count_def sample_env_fields extract_samples revoked_samples)




lemma is_revoked_listdir: "is_revoked (e\<lparr>listdir := l\<rparr>) t = is_revoked e t"
  by (simp add: fun_eq_iff is_revoked_def matched_entry_def process_certificate_def)

lemma listdir_irrelevant:
  "get_online_serial_list (e\<lparr>listdir := l\<rparr>) url = get_online_serial_list e url"
  "ONLINE_LIST_URL (e\<lparr>listdir := l\<rparr>) = ONLINE_LIST_URL e"
  "revoked_count (e\<lparr>listdir := l\<rparr>) t f = revoked_count e t f"
  by (simp_all add: get_online_serial_list_def fetch_entries_def ONLINE_LIST_URL_def
      revoked_count_def is_revoked_listdir split: sum.splits)

lemma one_file_fields:
  "xml_files_of one_file_env = [''a.xml'']"
  "table_of one_file_env = sample_table"
  "read_file one_file_env ''a.xml'' = Inr a_xml"
  "revoked_count one_file_env sample_table ''a.xml'' = 2"
  by (simp_all add: one_file_env_def xml_files_of_def table_of_def listdir_irrelevant
      fetched_sample sample_env_fields revoked_count_sample endswith_def string_eval)

text \<open>
  C6. The final results are meant to give the number of files without a revoked
  certificate as valid and the number of files with one as revoked. The run counts
  certificates: for one file with two revoked certificates it prints 1 keybox,
  -1 valid and 2 revoked, and lists that one file for deletion.
\<close>

theorem summary_counts_certificates_not_files:
  "xml_files_of one_file_env = [''a.xml'']
   \<and> revoked_count one_file_env (table_of one_file_env) ''a.xml'' = 2
   \<and> files_to_delete (main one_file_env) = [''a.xml'']
   \<and> Print (TotalKeyboxes 1) \<in> set (trace (main one_file_env))
   \<and> Print (ValidKeyboxes (- 1)) \<in> set (trace (main one_file_env))
   \<and> Print (RevokedKeyboxes 2) \<in> set (trace (main one_file_env))"
proof -
  have r: "\<forall>f\<in>set (xml_files_of one_file_env). \<exists>c. read_file one_file_env f = Inr c"
    and n: "xml_files_of one_file_env \<noteq> []"
    by (simp_all add: one_file_fields)
  have m: "files_to_delete (main one_file_env) = [''a.xml'']"
    "found_count (main one_file_env) = 2" "total_count (main one_file_env) = 1"
    by (simp_all add: main_effect one_file_fields)
  from main_summary(1-3)[OF n r] m show ?thesis
    by (simp add: one_file_fields)
qed

text \<open>
  C7. A missing library is meant to end the run with an install hint and a non-zero
  status. The imports at the top of the module run before the block that prints the
  hint: without \<open>requests\<close> the run ends there by the uncaught exception, with
  status 1, having printed and done nothing.
\<close>

theorem missing_library_prints_no_hint:
  "\<not> importable no_requests_env ''requests''
   \<and> run_script no_requests_env = initial\<lparr>outcome := Raised (ModuleNotFoundError ''requests'')\<rparr>
   \<and> trace (run_script no_requests_env) = []
   \<and> exit_status (outcome (run_script no_requests_env)) = 1"
  by (simp add: run_script_def module_imports_def no_requests_env_def sample_env_def initial_def)

text \<open>The block that prints the hints never does: where it runs, every library is there.\<close>

lemma main_guard_unreachable:
  "run_script e = (case module_imports e of Some x \<Rightarrow> initial\<lparr>outcome := Raised x\<rparr>
                   | None \<Rightarrow> main e)"
  by (simp add: run_script_def module_imports_def main_guard_def)



end
